theory Spec2Isabelle
  imports Main "HOL-Library.Word"
begin

unbundle bit_operations_syntax

section \<open>The C glue layer of the VTS module\<close>

text \<open>
  The two C files of the module are embedded here: the log-phase handler of
  \<^verbatim>\<open>ngx_vts_wrapper.c\<close>, and the status handler and the location configuration of
  \<^verbatim>\<open>ngx_http_vts_module.c\<close>. The statistics store itself is behind the foreign functions
  \<^verbatim>\<open>vts_update_server_stats_ffi\<close>, \<^verbatim>\<open>vts_track_upstream_request\<close> and
  \<^verbatim>\<open>ngx_http_vts_get_status\<close>; a call of one of them is an event of a trace, with the
  arguments it was given.

  The platform is LP64: \<^verbatim>\<open>ngx_uint_t\<close>, \<^verbatim>\<open>ngx_msec_t\<close> and \<^verbatim>\<open>size_t\<close> are unsigned
  64-bit, \<^verbatim>\<open>off_t\<close> and \<^verbatim>\<open>time_t\<close> are signed 64-bit. All of them are 64-bit words
  here: the handler only subtracts, multiplies, adds and converts them to \<^verbatim>\<open>uint64_t\<close>,
  which reads the same bits. Return codes (\<^verbatim>\<open>ngx_int_t\<close>) are only compared, never
  computed with, and are integers. The debug lines written with \<^verbatim>\<open>ngx_log_error\<close> are left
  out of the trace. Pointers the code follows without a test (\<^verbatim>\<open>r->connection\<close>, its
  \<^verbatim>\<open>log\<close>) are taken to be valid; those it tests are options.
\<close>

subsection \<open>nginx types and constants\<close>

type_synonym u_char = char
type_synonym ngx_uint_t = "64 word"
type_synonym ngx_msec_t = "64 word"
type_synonym off_t = "64 word"
type_synonym time_t = "64 word"
type_synonym size_t = "64 word"
type_synonym ngx_int_t = int
type_synonym ngx_flag_t = int

text \<open>
  An \<^verbatim>\<open>ngx_str_t\<close> is a counted byte string: \<^verbatim>\<open>data\<close> points to \<^verbatim>\<open>len\<close> bytes, with no
  terminator. It is the list of those bytes; \<^verbatim>\<open>len\<close> is the length of the list, and
  \<^verbatim>\<open>ngx_null_string\<close> (\<^verbatim>\<open>{0, NULL}\<close>) is the empty list.
\<close>

type_synonym ngx_str_t = "u_char list"

abbreviation len :: "ngx_str_t \<Rightarrow> nat" where
  "len s \<equiv> length s"

definition ngx_null_string :: ngx_str_t where
  "ngx_null_string = []"

definition NUL :: u_char where
  "NUL = CHR 0x00"

text \<open>Return codes of nginx (\<^verbatim>\<open>ngx_core.h\<close>, \<^verbatim>\<open>ngx_http_request.h\<close>).\<close>

definition NGX_OK :: ngx_int_t where "NGX_OK = 0"
definition NGX_ERROR :: ngx_int_t where "NGX_ERROR = - 1"
definition NGX_AGAIN :: ngx_int_t where "NGX_AGAIN = - 2"
definition NGX_BUSY :: ngx_int_t where "NGX_BUSY = - 3"
definition NGX_DONE :: ngx_int_t where "NGX_DONE = - 4"
definition NGX_DECLINED :: ngx_int_t where "NGX_DECLINED = - 5"
definition NGX_ABORT :: ngx_int_t where "NGX_ABORT = - 6"
definition NGX_HTTP_OK :: ngx_uint_t where "NGX_HTTP_OK = 200"
definition NGX_HTTP_NOT_ALLOWED :: ngx_int_t where "NGX_HTTP_NOT_ALLOWED = 405"
definition NGX_HTTP_INTERNAL_SERVER_ERROR :: ngx_int_t where
  "NGX_HTTP_INTERNAL_SERVER_ERROR = 500"

text \<open>
  The codes nginx reads as a failure of a handler: \<^verbatim>\<open>NGX_ERROR\<close>, \<^verbatim>\<open>NGX_ABORT\<close> and the
  HTTP special responses (300 and above).
\<close>

definition is_error_code :: "ngx_int_t \<Rightarrow> bool" where
  "is_error_code rc = (rc = NGX_ERROR \<or> rc = NGX_ABORT \<or> 300 \<le> rc)"

subsection \<open>Stack buffers\<close>

text \<open>
  A local array \<^verbatim>\<open>u_char buf[n]\<close> is a list of \<^verbatim>\<open>n\<close> bytes. It is not initialised: its
  first content is whatever the stack holds, a parameter of the model. A write outside
  the array is a fault, so that the model says where the C code would overrun.
\<close>

datatype fault = Buffer_overrun | Source_overrun

definition local_array :: "(nat \<Rightarrow> u_char) \<Rightarrow> nat \<Rightarrow> u_char list" where
  "local_array stack n = map stack [0..<n]"

definition sizeof :: "u_char list \<Rightarrow> nat" where
  "sizeof buf = length buf"

text \<open>\<^verbatim>\<open>ngx_memcpy(dst, src, n)\<close>: the first \<^verbatim>\<open>n\<close> bytes of \<^verbatim>\<open>dst\<close> become those of \<^verbatim>\<open>src\<close>.\<close>

definition ngx_memcpy :: "u_char list \<Rightarrow> u_char list \<Rightarrow> nat \<Rightarrow> fault + u_char list" where
  "ngx_memcpy dst src n =
     (if length src < n then Inl Source_overrun
      else if length dst < n then Inl Buffer_overrun
      else Inr (take n src @ drop n dst))"

text \<open>\<^verbatim>\<open>buf[i] = c\<close>.\<close>

definition store_byte :: "u_char list \<Rightarrow> nat \<Rightarrow> u_char \<Rightarrow> fault + u_char list" where
  "store_byte buf i c = (if i < length buf then Inr (buf[i := c]) else Inl Buffer_overrun)"

text \<open>
  \<^verbatim>\<open>ngx_cpystrn(dst, src, n)\<close> of nginx's \<^verbatim>\<open>ngx_string.c\<close> (not a file of this module):
  \<^verbatim>\<open>
  if (n == 0) return dst;
  while (--n) {
      *dst = *src;
      if (*dst == '\0') return dst;
      dst++; src++;
  }
  *dst = '\0';
  \<close>
  The source is a C string: its bytes with the terminator, here the list \<open>src\<close>. The loop
  runs on the count that is left after \<^verbatim>\<open>--n\<close> and on the write position \<open>i\<close>.
\<close>

fun cpystrn_loop :: "u_char list \<Rightarrow> nat \<Rightarrow> u_char list \<Rightarrow> nat \<Rightarrow> fault + u_char list" where
  "cpystrn_loop dst i src 0 = store_byte dst i NUL"
| "cpystrn_loop dst i [] (Suc n) = Inl Source_overrun"
| "cpystrn_loop dst i (c # src) (Suc n) =
     (case store_byte dst i c of
        Inl f \<Rightarrow> Inl f
      | Inr dst' \<Rightarrow> if c = NUL then Inr dst' else cpystrn_loop dst' (Suc i) src n)"

definition ngx_cpystrn :: "u_char list \<Rightarrow> u_char list \<Rightarrow> nat \<Rightarrow> fault + u_char list" where
  "ngx_cpystrn dst src n = (if n = 0 then Inr dst else cpystrn_loop dst 0 src (n - 1))"

text \<open>A C string literal: the bytes and the terminator.\<close>

definition c_literal :: "string \<Rightarrow> u_char list" where
  "c_literal s = s @ [NUL]"

text \<open>
  What the callee of a \<^verbatim>\<open>const char*\<close> argument reads: the bytes before the first NUL.
\<close>

definition c_str :: "u_char list \<Rightarrow> string" where
  "c_str buf = takeWhile (\<lambda>c. c \<noteq> NUL) buf"

subsection \<open>The request, as the log-phase handler reads it\<close>

record ngx_http_upstream_srv_conf_t =
  us_host :: ngx_str_t

record ngx_http_upstream_conf_t =
  uc_upstream :: "ngx_http_upstream_srv_conf_t option"

record ngx_http_upstream_state_t =
  st_peer :: "ngx_str_t option"
  st_response_time :: ngx_msec_t
  st_bytes_sent :: off_t
  st_bytes_received :: off_t
  st_status :: ngx_uint_t

record ngx_http_upstream_t =
  u_conf :: "ngx_http_upstream_conf_t option"
  u_state :: "ngx_http_upstream_state_t option"

text \<open>
  \<open>r_log_action\<close> is \<^verbatim>\<open>r->connection->log->action\<close>, \<open>r_sent\<close> is
  \<^verbatim>\<open>r->connection->sent\<close>; a pointer that may be \<^verbatim>\<open>NULL\<close> is an option.
\<close>

record ngx_http_request_t =
  r_upstream :: "ngx_http_upstream_t option"
  r_headers_in_server :: ngx_str_t
  r_headers_out_status :: ngx_uint_t
  r_log_action :: "string option"
  r_start_sec :: time_t
  r_start_msec :: ngx_msec_t
  r_request_length :: off_t
  r_sent :: off_t
  r_method :: ngx_uint_t
  r_content_length_n :: off_t

record ngx_time_t =
  tp_sec :: time_t
  tp_msec :: ngx_uint_t

text \<open>
  What the handler takes from outside the request: the cached time of
  \<^verbatim>\<open>ngx_timeofday()\<close> and the stack under its three arrays.
\<close>

record log_env =
  ngx_timeofday :: ngx_time_t
  upstream_name_stack :: "nat \<Rightarrow> u_char"
  server_addr_stack :: "nat \<Rightarrow> u_char"
  server_name_stack :: "nat \<Rightarrow> u_char"

text \<open>The calls into the statistics store, with their arguments in the order of the C prototypes.\<close>

datatype ffi_call =
  Update_server_stats
    (ss_server_name: "u_char list") (ss_status: "16 word") (ss_bytes_in: "64 word")
    (ss_bytes_out: "64 word") (ss_request_time: "64 word")
| Track_upstream_request
    (tu_upstream_name: "u_char list") (tu_server_addr: "u_char list") (tu_start_sec: "64 word")
    (tu_start_msec: "64 word") (tu_upstream_response_time: "64 word") (tu_bytes_sent: "64 word")
    (tu_bytes_received: "64 word") (tu_status_code: "16 word")

fun is_server_update :: "ffi_call \<Rightarrow> bool" where
  "is_server_update (Update_server_stats _ _ _ _ _) = True"
| "is_server_update _ = False"

fun is_upstream_update :: "ffi_call \<Rightarrow> bool" where
  "is_upstream_update (Track_upstream_request _ _ _ _ _ _ _ _) = True"
| "is_upstream_update _ = False"

subsection \<open>The log-phase handler\<close>

text \<open>Lines 71-74: the upstream name, \<^verbatim>\<open>ngx_null_string\<close> unless the configuration names one.\<close>

definition upstream_name_of :: "ngx_http_upstream_t \<Rightarrow> ngx_str_t" where
  "upstream_name_of u =
     (case u_conf u of
        None \<Rightarrow> ngx_null_string
      | Some c \<Rightarrow> (case uc_upstream c of None \<Rightarrow> ngx_null_string | Some us \<Rightarrow> us_host us))"

text \<open>Lines 76-92: what the upstream state gives, each with the initial value of its variable.\<close>

definition server_addr_of :: "ngx_http_upstream_t \<Rightarrow> ngx_str_t" where
  "server_addr_of u =
     (case u_state u of
        None \<Rightarrow> ngx_null_string
      | Some st \<Rightarrow> (case st_peer st of None \<Rightarrow> ngx_null_string | Some p \<Rightarrow> p))"

definition upstream_response_time_of :: "ngx_http_upstream_t \<Rightarrow> ngx_msec_t" where
  "upstream_response_time_of u = (case u_state u of None \<Rightarrow> 0 | Some st \<Rightarrow> st_response_time st)"

definition bytes_sent_of :: "ngx_http_upstream_t \<Rightarrow> off_t" where
  "bytes_sent_of u = (case u_state u of None \<Rightarrow> 0 | Some st \<Rightarrow> st_bytes_sent st)"

definition bytes_received_of :: "ngx_http_upstream_t \<Rightarrow> off_t" where
  "bytes_received_of u = (case u_state u of None \<Rightarrow> 0 | Some st \<Rightarrow> st_bytes_received st)"

text \<open>Lines 90-97: the status of the upstream state, or the response's when that is 0.\<close>

definition upstream_recorded_status :: "ngx_http_upstream_t \<Rightarrow> ngx_uint_t" where
  "upstream_recorded_status u = (case u_state u of None \<Rightarrow> 0 | Some st \<Rightarrow> st_status st)"

definition status_code_of :: "ngx_http_request_t \<Rightarrow> ngx_http_upstream_t \<Rightarrow> ngx_uint_t" where
  "status_code_of r u =
     (let status_code = upstream_recorded_status u
      in if status_code = 0 then r_headers_out_status r else status_code)"

text \<open>
  Lines 102-107, 109-114 and 117-124, the same block three times: a name that is not
  empty and shorter than \<^verbatim>\<open>sizeof(buf) - 1\<close> is copied and terminated, any other is
  replaced by the literal.
\<close>

definition fill_name_buf :: "u_char list \<Rightarrow> ngx_str_t \<Rightarrow> string \<Rightarrow> fault + u_char list" where
  "fill_name_buf buf s dflt =
     (if len s > 0 \<and> len s < sizeof buf - 1 then
        (case ngx_memcpy buf s (len s) of
           Inl f \<Rightarrow> Inl f
         | Inr buf' \<Rightarrow> store_byte buf' (len s) NUL)
      else ngx_cpystrn buf (c_literal dflt) (sizeof buf))"

text \<open>Lines 126-132: the lifetime of the request in milliseconds, in 64-bit arithmetic.\<close>

definition elapsed_msec :: "ngx_time_t \<Rightarrow> ngx_http_request_t \<Rightarrow> ngx_msec_t" where
  "elapsed_msec tp r = (tp_sec tp - r_start_sec r) * 1000 + (tp_msec tp - r_start_msec r)"

definition request_time_of :: "log_env \<Rightarrow> ngx_http_request_t \<Rightarrow> ngx_msec_t" where
  "request_time_of e r =
     (case r_log_action r of
        None \<Rightarrow> 0
      | Some _ \<Rightarrow> elapsed_msec (ngx_timeofday e) r)"

text \<open>Lines 134-138: the status of the server-zone update.\<close>

definition response_status_of :: "ngx_http_request_t \<Rightarrow> ngx_uint_t \<Rightarrow> ngx_uint_t" where
  "response_status_of r status_code =
     (let response_status =
        (if r_headers_out_status r \<noteq> 0 then r_headers_out_status r else status_code)
      in if response_status = 0 then 200 else response_status)"

text \<open>
  The handler: the code it returns and the calls it made, in order, or the fault of a
  write outside an array.
\<close>

definition ngx_http_vts_log_handler ::
  "log_env \<Rightarrow> ngx_http_request_t \<Rightarrow> fault + (ngx_int_t \<times> ffi_call list)" where
  "ngx_http_vts_log_handler e r =
     (case r_upstream r of
        None \<Rightarrow> Inr (NGX_DECLINED, [])
      | Some u \<Rightarrow>
          (let upstream_name = upstream_name_of u;
               server_addr = server_addr_of u;
               upstream_response_time = upstream_response_time_of u;
               bytes_sent = bytes_sent_of u;
               bytes_received = bytes_received_of u;
               status_code = status_code_of r u
           in
           case fill_name_buf (local_array (upstream_name_stack e) 256) upstream_name ''default'' of
             Inl f \<Rightarrow> Inl f
           | Inr upstream_name_buf \<Rightarrow>
           (case fill_name_buf (local_array (server_addr_stack e) 256) server_addr ''unknown'' of
             Inl f \<Rightarrow> Inl f
           | Inr server_addr_buf \<Rightarrow>
           (case fill_name_buf (local_array (server_name_stack e) 256) (r_headers_in_server r) ''_'' of
             Inl f \<Rightarrow> Inl f
           | Inr server_name_buf \<Rightarrow>
               (let request_time = request_time_of e r;
                    response_status = response_status_of r status_code;
                    bytes_in = r_request_length r;
                    bytes_out = r_sent r;
                    server_update =
                      Update_server_stats server_name_buf (ucast response_status)
                        bytes_in bytes_out request_time;
                    upstream_update =
                      (if len upstream_name > 0 then
                         [Track_upstream_request upstream_name_buf server_addr_buf
                            (r_start_sec r) (r_start_msec r) upstream_response_time
                            bytes_sent bytes_received (ucast status_code)]
                       else [])
                in Inr (NGX_DECLINED, server_update # upstream_update))))))"

text \<open>What a run of the handler shows: the code it returned and the calls of each kind.\<close>

definition return_code :: "fault + (ngx_int_t \<times> ffi_call list) \<Rightarrow> ngx_int_t option" where
  "return_code res = (case res of Inl f \<Rightarrow> None | Inr (rc, calls) \<Rightarrow> Some rc)"

definition calls_of :: "fault + (ngx_int_t \<times> ffi_call list) \<Rightarrow> ffi_call list" where
  "calls_of res = (case res of Inl f \<Rightarrow> [] | Inr (rc, calls) \<Rightarrow> calls)"

definition server_updates :: "fault + (ngx_int_t \<times> ffi_call list) \<Rightarrow> ffi_call list" where
  "server_updates res = filter is_server_update (calls_of res)"

definition upstream_updates :: "fault + (ngx_int_t \<times> ffi_call list) \<Rightarrow> ffi_call list" where
  "upstream_updates res = filter is_upstream_update (calls_of res)"

text \<open>The value of the variable \<^verbatim>\<open>upstream_name\<close> wherever the handler returns.\<close>

definition request_upstream_name :: "ngx_http_request_t \<Rightarrow> ngx_str_t" where
  "request_upstream_name r =
     (case r_upstream r of None \<Rightarrow> ngx_null_string | Some u \<Rightarrow> upstream_name_of u)"

subsection \<open>The status handler\<close>

text \<open>
  The method bits of \<^verbatim>\<open>ngx_http_request.h\<close>: \<^verbatim>\<open>r->method\<close> holds one of them, set by
  nginx when it parses the request line.
\<close>

definition NGX_HTTP_UNKNOWN :: ngx_uint_t where "NGX_HTTP_UNKNOWN = 0x00000001"
definition NGX_HTTP_GET :: ngx_uint_t where "NGX_HTTP_GET = 0x00000002"
definition NGX_HTTP_HEAD :: ngx_uint_t where "NGX_HTTP_HEAD = 0x00000004"
definition NGX_HTTP_POST :: ngx_uint_t where "NGX_HTTP_POST = 0x00000008"
definition NGX_HTTP_PUT :: ngx_uint_t where "NGX_HTTP_PUT = 0x00000010"
definition NGX_HTTP_DELETE :: ngx_uint_t where "NGX_HTTP_DELETE = 0x00000020"
definition NGX_HTTP_MKCOL :: ngx_uint_t where "NGX_HTTP_MKCOL = 0x00000040"
definition NGX_HTTP_COPY :: ngx_uint_t where "NGX_HTTP_COPY = 0x00000080"
definition NGX_HTTP_MOVE :: ngx_uint_t where "NGX_HTTP_MOVE = 0x00000100"
definition NGX_HTTP_OPTIONS :: ngx_uint_t where "NGX_HTTP_OPTIONS = 0x00000200"
definition NGX_HTTP_PROPFIND :: ngx_uint_t where "NGX_HTTP_PROPFIND = 0x00000400"
definition NGX_HTTP_PROPPATCH :: ngx_uint_t where "NGX_HTTP_PROPPATCH = 0x00000800"
definition NGX_HTTP_LOCK :: ngx_uint_t where "NGX_HTTP_LOCK = 0x00001000"
definition NGX_HTTP_UNLOCK :: ngx_uint_t where "NGX_HTTP_UNLOCK = 0x00002000"
definition NGX_HTTP_PATCH :: ngx_uint_t where "NGX_HTTP_PATCH = 0x00004000"
definition NGX_HTTP_TRACE :: ngx_uint_t where "NGX_HTTP_TRACE = 0x00008000"
definition NGX_HTTP_CONNECT :: ngx_uint_t where "NGX_HTTP_CONNECT = 0x00010000"

definition ngx_http_methods :: "ngx_uint_t list" where
  "ngx_http_methods =
     [NGX_HTTP_UNKNOWN, NGX_HTTP_GET, NGX_HTTP_HEAD, NGX_HTTP_POST, NGX_HTTP_PUT,
      NGX_HTTP_DELETE, NGX_HTTP_MKCOL, NGX_HTTP_COPY, NGX_HTTP_MOVE, NGX_HTTP_OPTIONS,
      NGX_HTTP_PROPFIND, NGX_HTTP_PROPPATCH, NGX_HTTP_LOCK, NGX_HTTP_UNLOCK, NGX_HTTP_PATCH,
      NGX_HTTP_TRACE, NGX_HTTP_CONNECT]"

text \<open>
  What the status handler calls, in order: nginx's functions and
  \<^verbatim>\<open>ngx_http_vts_get_status\<close>, which reads the statistics store and renders the report.
\<close>

datatype status_event =
  Discard_request_body
| Get_status
| Send_header
| Create_temp_buf nat
| Output_filter "u_char list"

text \<open>
  What those calls return. \<open>vts_status_output\<close> is the C string of the report (its bytes
  before the terminator); \<open>send_header_result k\<close> is the code of the \<open>k\<close>-th call of
  \<^verbatim>\<open>ngx_http_send_header\<close> and the value of \<^verbatim>\<open>r->header_only\<close> after it.
\<close>

record status_env =
  discard_request_body_rc :: ngx_int_t
  vts_status_output :: "u_char list"
  send_header_result :: "nat \<Rightarrow> ngx_int_t \<times> bool"
  temp_buf_available :: bool
  output_filter_rc :: ngx_int_t

definition header_stops :: "ngx_int_t \<times> bool \<Rightarrow> bool" where
  "header_stops res = (fst res = NGX_ERROR \<or> fst res > NGX_OK \<or> snd res)"

definition ngx_http_vts_status_handler ::
  "status_env \<Rightarrow> ngx_http_request_t \<Rightarrow> ngx_int_t \<times> status_event list \<times> ngx_http_request_t" where
  "ngx_http_vts_status_handler e r =
     (if r_method r AND (NGX_HTTP_GET OR NGX_HTTP_HEAD) = 0 then (NGX_HTTP_NOT_ALLOWED, [], r)
      else if discard_request_body_rc e \<noteq> NGX_OK then
        (discard_request_body_rc e, [Discard_request_body], r)
      else
        (let status_output = vts_status_output e;
             status_len = length status_output;
             r' = r\<lparr>r_headers_out_status := NGX_HTTP_OK,
                    r_content_length_n := of_nat status_len\<rparr>;
             head = (r_method r = NGX_HTTP_HEAD);
             before = [Discard_request_body, Get_status] @ (if head then [Send_header] else [])
         in
         if head \<and> header_stops (send_header_result e 0) then
           (fst (send_header_result e 0), before, r')
         else if \<not> temp_buf_available e then
           (NGX_HTTP_INTERNAL_SERVER_ERROR, before @ [Create_temp_buf status_len], r')
         else
           (let res = send_header_result e (if head then 1 else 0)
            in if header_stops res then
                 (fst res, before @ [Create_temp_buf status_len, Send_header], r')
               else
                 (output_filter_rc e,
                  before @ [Create_temp_buf status_len, Send_header, Output_filter status_output],
                  r'))))"

subsection \<open>The location configuration\<close>

record ngx_http_vts_loc_conf_t =
  lc_enable :: ngx_flag_t
  lc_zone_size :: size_t
  lc_zone_name :: ngx_str_t

text \<open>
  \<^verbatim>\<open>ngx_conf_file.h\<close>: \<^verbatim>\<open>NGX_CONF_UNSET\<close> is \<^verbatim>\<open>-1\<close>, \<^verbatim>\<open>NGX_CONF_UNSET_SIZE\<close> is
  \<^verbatim>\<open>(size_t) -1\<close>, and both merge macros are
  \<^verbatim>\<open>if (conf == UNSET) { conf = (prev == UNSET) ? default : prev; }\<close>.
\<close>

definition NGX_CONF_UNSET :: ngx_flag_t where "NGX_CONF_UNSET = - 1"
definition NGX_CONF_UNSET_SIZE :: size_t where "NGX_CONF_UNSET_SIZE = - 1"

definition ngx_conf_merge_value :: "ngx_flag_t \<Rightarrow> ngx_flag_t \<Rightarrow> ngx_flag_t \<Rightarrow> ngx_flag_t" where
  "ngx_conf_merge_value conf prev dflt =
     (if conf = NGX_CONF_UNSET then (if prev = NGX_CONF_UNSET then dflt else prev) else conf)"

definition ngx_conf_merge_size_value :: "size_t \<Rightarrow> size_t \<Rightarrow> size_t \<Rightarrow> size_t" where
  "ngx_conf_merge_size_value conf prev dflt =
     (if conf = NGX_CONF_UNSET_SIZE then (if prev = NGX_CONF_UNSET_SIZE then dflt else prev)
      else conf)"

text \<open>
  \<^verbatim>\<open>ngx_http_vts_create_loc_conf\<close>: \<^verbatim>\<open>NULL\<close> when the pool has no memory left, otherwise
  a zeroed structure with both settings unset.
\<close>

definition ngx_http_vts_create_loc_conf :: "bool \<Rightarrow> ngx_http_vts_loc_conf_t option" where
  "ngx_http_vts_create_loc_conf pool_has_memory =
     (if \<not> pool_has_memory then None
      else Some \<lparr>lc_enable = NGX_CONF_UNSET, lc_zone_size = NGX_CONF_UNSET_SIZE,
                 lc_zone_name = ngx_null_string\<rparr>)"

text \<open>
  \<^verbatim>\<open>ngx_http_vts_merge_loc_conf\<close> writes the child and returns \<^verbatim>\<open>NGX_CONF_OK\<close>
  (\<^verbatim>\<open>NULL\<close>, here \<open>None\<close>; an error would be its message). The result is the code and
  the child after the merge.
\<close>

definition ngx_http_vts_merge_loc_conf ::
  "ngx_http_vts_loc_conf_t \<Rightarrow> ngx_http_vts_loc_conf_t \<Rightarrow> string option \<times> ngx_http_vts_loc_conf_t" where
  "ngx_http_vts_merge_loc_conf prev conf =
     (None,
      conf\<lparr>lc_enable := ngx_conf_merge_value (lc_enable conf) (lc_enable prev) 0,
           lc_zone_size :=
             ngx_conf_merge_size_value (lc_zone_size conf) (lc_zone_size prev) (1024 * 1024)\<rparr>)"

subsection \<open>Notions used to state the properties\<close>

text \<open>An array after a name and its terminator were written at its start.\<close>

definition terminated_in :: "u_char list \<Rightarrow> string \<Rightarrow> u_char list" where
  "terminated_in buf t = t @ NUL # drop (Suc (length t)) buf"

text \<open>The name an array of \<open>n\<close> bytes ends up holding: the given one, or the literal.\<close>

definition chosen_name :: "nat \<Rightarrow> ngx_str_t \<Rightarrow> string \<Rightarrow> string" where
  "chosen_name n s dflt = (if 0 < len s \<and> len s < n - 1 then s else dflt)"

text \<open>
  A proxied request, for the concrete instances below: sent to the upstream
  \<^verbatim>\<open>backend\<close>, answered by the peer \<^verbatim>\<open>10.0.0.1:8080\<close> in 42 ms, logged 5150 ms after
  it started.
\<close>

definition example_env :: log_env where
  "example_env =
     \<lparr>ngx_timeofday = \<lparr>tp_sec = 1700000010, tp_msec = 250\<rparr>,
      upstream_name_stack = (\<lambda>i. CHR ''u''),
      server_addr_stack = (\<lambda>i. CHR ''a''),
      server_name_stack = (\<lambda>i. CHR ''s'')\<rparr>"

definition example_state :: ngx_http_upstream_state_t where
  "example_state =
     \<lparr>st_peer = Some ''10.0.0.1:8080'', st_response_time = 42, st_bytes_sent = 300,
      st_bytes_received = 1200, st_status = 502\<rparr>"

definition example_upstream :: ngx_http_upstream_t where
  "example_upstream =
     \<lparr>u_conf = Some \<lparr>uc_upstream = Some \<lparr>us_host = ''backend''\<rparr>\<rparr>,
      u_state = Some example_state\<rparr>"

definition example_request :: ngx_http_request_t where
  "example_request =
     \<lparr>r_upstream = Some example_upstream,
      r_headers_in_server = ''example.com'',
      r_headers_out_status = 404,
      r_log_action = Some ''logging request'',
      r_start_sec = 1700000005,
      r_start_msec = 100,
      r_request_length = 512,
      r_sent = 2048,
      r_method = NGX_HTTP_GET,
      r_content_length_n = 0\<rparr>"


text \<open>
  The array starts with the bytes of \<open>s\<close>, one for one, and the terminator follows them.
\<close>

definition holds_name :: "u_char list \<Rightarrow> ngx_str_t \<Rightarrow> bool" where
  "holds_name buf s = (take (Suc (len s)) buf = s @ [NUL])"

text \<open>Surroundings in which every call the status handler makes succeeds.\<close>

definition example_status_env :: status_env where
  "example_status_env =
     \<lparr>discard_request_body_rc = NGX_OK,
      vts_status_output = ''# nginx-vts-rust'',
      send_header_result = (\<lambda>k. (NGX_OK, False)),
      temp_buf_available = True,
      output_filter_rc = NGX_OK\<rparr>"

section \<open>Properties\<close>

subsection \<open>Writing a name into an array\<close>

lemma store_byte_append:
  "store_byte (xs @ y # ys) (length xs) c = Inr (xs @ c # ys)"
  by (simp add: store_byte_def)

text \<open>
  The loop of \<^verbatim>\<open>ngx_cpystrn\<close> on a string without an inner NUL that fits the count:
  induction on the bytes still to copy, the part of the array already written and the
  count generalised.
\<close>

lemma cpystrn_loop_copies:
  "NUL \<notin> set body \<Longrightarrow> length body \<le> n \<Longrightarrow> length rest = length body \<Longrightarrow>
   cpystrn_loop (pre @ rest @ y # ys) (length pre) (body @ [NUL]) n = Inr (pre @ body @ NUL # ys)"
proof (induction body arbitrary: pre rest n)
  case Nil
  then show ?case by (cases n) (simp_all add: store_byte_append)
next
  case (Cons c body)
  then obtain m where n: "n = Suc m" by (cases n) auto
  from Cons.prems obtain d rest' where rest: "rest = d # rest'" by (cases rest) auto
  have "cpystrn_loop ((pre @ [c]) @ rest' @ y # ys) (length (pre @ [c])) (body @ [NUL]) m
        = Inr ((pre @ [c]) @ body @ NUL # ys)"
    using Cons.prems n rest by (intro Cons.IH) auto
  moreover have "c \<noteq> NUL" using Cons.prems by auto
  ultimately show ?case using n rest by (simp add: store_byte_append)
qed

lemma ngx_cpystrn_literal:
  assumes "NUL \<notin> set t" "length t < length buf"
  shows "ngx_cpystrn buf (c_literal t) (sizeof buf) = Inr (terminated_in buf t)"
proof -
  let ?k = "length t"
  have buf: "buf = [] @ take ?k buf @ buf ! ?k # drop (Suc ?k) buf"
    using assms(2) by (simp add: id_take_nth_drop)
  have "cpystrn_loop ([] @ take ?k buf @ buf ! ?k # drop (Suc ?k) buf) (length ([] :: u_char list))
          (t @ [NUL]) (length buf - 1) = Inr ([] @ t @ NUL # drop (Suc ?k) buf)"
    using assms by (intro cpystrn_loop_copies) auto
  then have "cpystrn_loop buf 0 (t @ [NUL]) (length buf - 1) = Inr (t @ NUL # drop (Suc ?k) buf)"
    using buf by simp
  then show ?thesis
    using assms(2) by (auto simp add: ngx_cpystrn_def c_literal_def sizeof_def terminated_in_def)
qed

lemma memcpy_then_terminate:
  assumes "length s < length buf"
  shows "ngx_memcpy buf s (length s) = Inr (s @ drop (length s) buf)"
    and "store_byte (s @ drop (length s) buf) (length s) NUL = Inr (terminated_in buf s)"
proof -
  show "ngx_memcpy buf s (length s) = Inr (s @ drop (length s) buf)"
    using assms by (simp add: ngx_memcpy_def)
  have "drop (length s) buf = buf ! length s # drop (Suc (length s)) buf"
    using assms by (simp add: Cons_nth_drop_Suc)
  then show "store_byte (s @ drop (length s) buf) (length s) NUL = Inr (terminated_in buf s)"
    by (simp add: store_byte_append terminated_in_def)
qed

text \<open>The block that fills an array never writes outside it, whatever the name.\<close>

lemma fill_name_buf_eq:
  assumes "NUL \<notin> set dflt" "length dflt < length buf"
  shows "fill_name_buf buf s dflt = Inr (terminated_in buf (chosen_name (length buf) s dflt))"
proof (cases "0 < len s \<and> len s < length buf - 1")
  case True
  then have "length s < length buf" by arith
  from memcpy_then_terminate [OF this] True show ?thesis
    by (simp add: fill_name_buf_def sizeof_def chosen_name_def)
next
  case False
  with ngx_cpystrn_literal [OF assms] show ?thesis
    by (auto simp add: fill_name_buf_def sizeof_def chosen_name_def)
qed

lemma length_local_array: "length (local_array stack n) = n"
  by (simp add: local_array_def)

lemma length_terminated_in: "length t < length buf \<Longrightarrow> length (terminated_in buf t) = length buf"
  by (simp add: terminated_in_def)

lemma c_str_terminated_in: "NUL \<notin> set t \<Longrightarrow> c_str (terminated_in buf t) = t"
proof -
  have "takeWhile (\<lambda>c. c \<noteq> NUL) (t @ NUL # drop (Suc (length t)) buf)
        = t @ takeWhile (\<lambda>c. c \<noteq> NUL) (NUL # drop (Suc (length t)) buf)"
    if "NUL \<notin> set t"
    using that by (intro takeWhile_append2) auto
  then show "NUL \<notin> set t \<Longrightarrow> c_str (terminated_in buf t) = t"
    by (simp add: c_str_def terminated_in_def)
qed

lemma take_terminated_in: "take (Suc (length t)) (terminated_in buf t) = t @ [NUL]"
  by (simp add: terminated_in_def)

lemma NUL_notin_tokens:
  "NUL \<notin> set ''default''" "NUL \<notin> set ''unknown''" "NUL \<notin> set ''_''"
  by (simp_all add: NUL_def)

lemma holds_name_terminated_in: "holds_name (terminated_in buf t) t"
  by (simp add: holds_name_def terminated_in_def)

text \<open>What the callee reads from an array that holds a name without an inner NUL.\<close>

lemma holds_name_c_str:
  assumes "holds_name buf s" "NUL \<notin> set s"
  shows "c_str buf = s"
proof -
  have "buf = (s @ [NUL]) @ drop (Suc (len s)) buf"
    using assms(1) append_take_drop_id [of "Suc (len s)" buf] by (simp add: holds_name_def)
  then have "c_str buf = takeWhile (\<lambda>c. c \<noteq> NUL) (s @ NUL # drop (Suc (len s)) buf)"
    by (simp add: c_str_def)
  also have "\<dots> = s @ takeWhile (\<lambda>c. c \<noteq> NUL) (NUL # drop (Suc (len s)) buf)"
    using assms(2) by (intro takeWhile_append2) auto
  finally show ?thesis by simp
qed

lemma chosen_name_cases:
  "len s = 0 \<Longrightarrow> chosen_name 256 s dflt = dflt"
  "0 < len s \<Longrightarrow> len s < 255 \<Longrightarrow> chosen_name 256 s dflt = s"
  "255 \<le> len s \<Longrightarrow> chosen_name 256 s dflt = dflt"
  by (simp_all add: chosen_name_def)

lemma c_str_tokens:
  "c_str (terminated_in buf ''_'') = ''_''"
  "c_str (terminated_in buf ''unknown'') = ''unknown''"
  "c_str (terminated_in buf ''default'') = ''default''"
  by (rule c_str_terminated_in, rule NUL_notin_tokens)+

lemma singleton_list: "length xs = 1 \<Longrightarrow> \<exists>x. xs = [x]"
  by (cases xs) auto

subsection \<open>What the log-phase handler does\<close>


lemma log_handler_no_upstream:
  "r_upstream r = None \<Longrightarrow> ngx_http_vts_log_handler e r = Inr (NGX_DECLINED, [])"
  by (simp add: ngx_http_vts_log_handler_def)

lemma log_handler_with_upstream:
  assumes "r_upstream r = Some u"
  shows "ngx_http_vts_log_handler e r =
    Inr (NGX_DECLINED,
      Update_server_stats
        (terminated_in (local_array (server_name_stack e) 256)
           (chosen_name 256 (r_headers_in_server r) ''_''))
        (ucast (response_status_of r (status_code_of r u)))
        (r_request_length r) (r_sent r) (request_time_of e r)
      # (if len (upstream_name_of u) > 0 then
           [Track_upstream_request
              (terminated_in (local_array (upstream_name_stack e) 256)
                 (chosen_name 256 (upstream_name_of u) ''default''))
              (terminated_in (local_array (server_addr_stack e) 256)
                 (chosen_name 256 (server_addr_of u) ''unknown''))
              (r_start_sec r) (r_start_msec r) (upstream_response_time_of u)
              (bytes_sent_of u) (bytes_received_of u) (ucast (status_code_of r u))]
         else []))"
proof -
  have fill: "fill_name_buf (local_array stack 256) s dflt =
      Inr (terminated_in (local_array stack 256) (chosen_name 256 s dflt))"
    if "NUL \<notin> set dflt" "length dflt < 256" for stack s dflt
    using fill_name_buf_eq [of dflt "local_array stack 256" s] that
    by (simp add: length_local_array)
  have fills:
    "fill_name_buf (local_array stack 256) s ''default'' =
       Inr (terminated_in (local_array stack 256) (chosen_name 256 s ''default''))"
    "fill_name_buf (local_array stack 256) s ''unknown'' =
       Inr (terminated_in (local_array stack 256) (chosen_name 256 s ''unknown''))"
    "fill_name_buf (local_array stack 256) s ''_'' =
       Inr (terminated_in (local_array stack 256) (chosen_name 256 s ''_''))"
    for stack s
    by (rule fill, rule NUL_notin_tokens, simp)+
  show ?thesis
    using assms
    by (simp add: ngx_http_vts_log_handler_def Let_def fills)
qed

subsection \<open>Claims about the log-phase handler\<close>

text \<open>
  C1 (the code departs from it). The claim: every completed request gets a server-zone
  update, and an upstream-zone update only if an upstream was used. The handler returns
  at its first test when the request has no upstream (\<^verbatim>\<open>r->upstream == NULL\<close>, a request
  answered by nginx itself), before the block whose comment reads "Update server zone
  statistics for all requests": for such a request it makes no call at all.
\<close>

theorem log_handler_skips_request_without_upstream:
  "ngx_http_vts_log_handler e (r\<lparr>r_upstream := None\<rparr>) = Inr (NGX_DECLINED, [])
   \<and> server_updates (ngx_http_vts_log_handler e (r\<lparr>r_upstream := None\<rparr>)) = []"
  by (simp add: log_handler_no_upstream server_updates_def calls_of_def)

text \<open>
  C2. When the upstream name the handler derived is empty, it makes no upstream-zone
  call, and it returns \<^verbatim>\<open>NGX_DECLINED\<close> as for any other request: the event is dropped,
  not reported.
\<close>

theorem empty_upstream_name_is_dropped:
  assumes "len (request_upstream_name r) = 0"
  shows "return_code (ngx_http_vts_log_handler e r) = Some NGX_DECLINED
         \<and> upstream_updates (ngx_http_vts_log_handler e r) = []"
proof (cases "r_upstream r")
  case None
  then show ?thesis
    by (simp add: log_handler_no_upstream return_code_def upstream_updates_def calls_of_def)
next
  case (Some u)
  with assms have "upstream_name_of u = []"
    by (simp add: request_upstream_name_def)
  with Some show ?thesis
    by (simp add: log_handler_with_upstream return_code_def upstream_updates_def calls_of_def)
qed

text \<open>
  An instance: the example request with an upstream that has no configuration. The
  server-zone update is still made.
\<close>

theorem empty_upstream_name_is_dropped_witness:
  "len (request_upstream_name
          (example_request\<lparr>r_upstream := Some (example_upstream\<lparr>u_conf := None\<rparr>)\<rparr>)) = 0
   \<and> return_code (ngx_http_vts_log_handler example_env
        (example_request\<lparr>r_upstream := Some (example_upstream\<lparr>u_conf := None\<rparr>)\<rparr>))
       = Some NGX_DECLINED
   \<and> upstream_updates (ngx_http_vts_log_handler example_env
        (example_request\<lparr>r_upstream := Some (example_upstream\<lparr>u_conf := None\<rparr>)\<rparr>)) = []
   \<and> length (server_updates (ngx_http_vts_log_handler example_env
        (example_request\<lparr>r_upstream := Some (example_upstream\<lparr>u_conf := None\<rparr>)\<rparr>))) = 1"
proof -
  let ?r = "example_request\<lparr>r_upstream := Some (example_upstream\<lparr>u_conf := None\<rparr>)\<rparr>"
  have h: "len (request_upstream_name ?r) = 0"
    by (simp add: request_upstream_name_def upstream_name_of_def ngx_null_string_def)
  have "length (server_updates (ngx_http_vts_log_handler example_env ?r)) = 1"
    by (simp add: log_handler_with_upstream [of _ "example_upstream\<lparr>u_conf := None\<rparr>"]
        server_updates_def calls_of_def)
  with h empty_upstream_name_is_dropped [OF h, of example_env] show ?thesis
    by simp
qed

text \<open>
  C3. The status of the server-zone update is the response's status
  (\<^verbatim>\<open>r->headers_out.status\<close>) when that is not 0, otherwise the upstream's
  \<^verbatim>\<open>status_code\<close> (the status of the upstream state, or the response's when that is 0),
  and 200 when both are 0. The call takes it as a \<^verbatim>\<open>uint16_t\<close>, so the value chosen is
  cut to 16 bits.
\<close>

theorem server_update_status_choice:
  assumes "r_upstream r = Some u"
  shows "return_code (ngx_http_vts_log_handler e r) = Some NGX_DECLINED
    \<and> map ss_status (server_updates (ngx_http_vts_log_handler e r)) =
        [ucast (if r_headers_out_status r \<noteq> 0 then r_headers_out_status r
                else if status_code_of r u \<noteq> 0 then status_code_of r u
                else 200)]
    \<and> status_code_of r u =
        (if upstream_recorded_status u \<noteq> 0 then upstream_recorded_status u
         else r_headers_out_status r)
    \<and> (r_headers_out_status r = 0 \<and> upstream_recorded_status u = 0 \<longrightarrow>
         map ss_status (server_updates (ngx_http_vts_log_handler e r)) = [200])"
  using assms
  by (simp add: log_handler_with_upstream return_code_def server_updates_def calls_of_def
      response_status_of_def status_code_of_def Let_def)

text \<open>
  Instances: the example request (response status 404, upstream status 502) is counted
  as 404; without a response status it is counted as 502; with neither, as 200.
\<close>

theorem server_update_status_choice_witness:
  "r_upstream example_request = Some example_upstream
   \<and> map ss_status (server_updates (ngx_http_vts_log_handler example_env example_request))
       = [404]
   \<and> map ss_status (server_updates (ngx_http_vts_log_handler example_env
        (example_request\<lparr>r_headers_out_status := 0\<rparr>))) = [502]
   \<and> map ss_status (server_updates (ngx_http_vts_log_handler example_env
        (example_request\<lparr>r_upstream := Some (example_upstream\<lparr>u_state := None\<rparr>),
                          r_headers_out_status := 0\<rparr>))) = [200]"
proof -
  have u: "r_upstream example_request = Some example_upstream"
    by (simp add: example_request_def)
  have u0: "r_upstream (example_request\<lparr>r_headers_out_status := 0\<rparr>) = Some example_upstream"
    by (simp add: example_request_def)
  have u1: "r_upstream (example_request\<lparr>r_upstream := Some (example_upstream\<lparr>u_state := None\<rparr>),
              r_headers_out_status := 0\<rparr>) = Some (example_upstream\<lparr>u_state := None\<rparr>)"
    by simp
  show ?thesis
    using u server_update_status_choice [OF u, of example_env]
      server_update_status_choice [OF u0, of example_env]
      server_update_status_choice [OF u1, of example_env]
    by (simp add: example_request_def example_upstream_def example_state_def
        status_code_of_def upstream_recorded_status_def)
qed

text \<open>
  C4. The handler returns \<^verbatim>\<open>NGX_DECLINED\<close> for every request and every state of its
  surroundings: there is no path on which it returns another code, and none on which a
  write leaves an array. \<^verbatim>\<open>NGX_DECLINED\<close> is not one of the codes nginx reads as a failure.
\<close>

theorem log_handler_always_declines:
  "return_code (ngx_http_vts_log_handler e r) = Some NGX_DECLINED
   \<and> \<not> is_error_code NGX_DECLINED \<and> NGX_DECLINED \<noteq> NGX_ERROR"
proof (cases "r_upstream r")
  case None
  then show ?thesis
    by (simp add: log_handler_no_upstream return_code_def is_error_code_def
        NGX_DECLINED_def NGX_ERROR_def NGX_ABORT_def)
next
  case (Some u)
  then show ?thesis
    by (simp add: log_handler_with_upstream return_code_def is_error_code_def
        NGX_DECLINED_def NGX_ERROR_def NGX_ABORT_def)
qed



text \<open>
  C6. In the calls the handler makes, an empty server name has become \<^verbatim>\<open>_\<close> and an empty
  peer address \<^verbatim>\<open>unknown\<close>; a name of 1 to 254 bytes is in its array byte for byte, with
  the terminator after it. There is one server-zone call, and one upstream-zone call when
  the upstream name is not empty.
\<close>

theorem names_normalized_for_the_calls:
  assumes "r_upstream r = Some u"
  shows "length (server_updates (ngx_http_vts_log_handler e r)) = 1
    \<and> (\<forall>c \<in> set (server_updates (ngx_http_vts_log_handler e r)).
          (len (r_headers_in_server r) = 0 \<longrightarrow> c_str (ss_server_name c) = ''_'')
        \<and> (0 < len (r_headers_in_server r) \<and> len (r_headers_in_server r) < 255 \<longrightarrow>
             holds_name (ss_server_name c) (r_headers_in_server r)))
    \<and> length (upstream_updates (ngx_http_vts_log_handler e r))
        = (if len (upstream_name_of u) > 0 then 1 else 0)
    \<and> (\<forall>c \<in> set (upstream_updates (ngx_http_vts_log_handler e r)).
          (len (server_addr_of u) = 0 \<longrightarrow> c_str (tu_server_addr c) = ''unknown'')
        \<and> (0 < len (server_addr_of u) \<and> len (server_addr_of u) < 255 \<longrightarrow>
             holds_name (tu_server_addr c) (server_addr_of u))
        \<and> (0 < len (upstream_name_of u) \<and> len (upstream_name_of u) < 255 \<longrightarrow>
             holds_name (tu_upstream_name c) (upstream_name_of u)))"
proof -
  note h = log_handler_with_upstream [OF assms, of e]
  show ?thesis
    by (simp add: h server_updates_def upstream_updates_def calls_of_def c_str_tokens
        chosen_name_cases holds_name_terminated_in)
qed

text \<open>
  Instances: the example request without a server name is counted under \<^verbatim>\<open>_\<close>, at the
  peer and the upstream it names; without a peer, at the peer \<^verbatim>\<open>unknown\<close>.
\<close>

theorem names_normalized_for_the_calls_witness:
  "r_upstream (example_request\<lparr>r_headers_in_server := []\<rparr>) = Some example_upstream
   \<and> map (\<lambda>c. c_str (ss_server_name c))
        (server_updates (ngx_http_vts_log_handler example_env
           (example_request\<lparr>r_headers_in_server := []\<rparr>))) = [''_'']
   \<and> map (\<lambda>c. c_str (tu_server_addr c))
        (upstream_updates (ngx_http_vts_log_handler example_env
           (example_request\<lparr>r_headers_in_server := []\<rparr>))) = [''10.0.0.1:8080'']
   \<and> map (\<lambda>c. c_str (tu_upstream_name c))
        (upstream_updates (ngx_http_vts_log_handler example_env
           (example_request\<lparr>r_headers_in_server := []\<rparr>))) = [''backend'']
   \<and> map (\<lambda>c. c_str (tu_server_addr c))
        (upstream_updates (ngx_http_vts_log_handler example_env
           (example_request\<lparr>r_upstream :=
              Some (example_upstream\<lparr>u_state := Some (example_state\<lparr>st_peer := None\<rparr>)\<rparr>)\<rparr>)))
       = [''unknown'']"
proof -
  let ?r = "example_request\<lparr>r_headers_in_server := []\<rparr>"
  let ?h = "ngx_http_vts_log_handler example_env ?r"
  have u: "r_upstream ?r = Some example_upstream"
    by (simp add: example_request_def)
  have addr: "server_addr_of example_upstream = ''10.0.0.1:8080''"
    and name: "upstream_name_of example_upstream = ''backend''"
    by (simp_all add: server_addr_of_def upstream_name_of_def example_upstream_def
        example_state_def)
  note t = names_normalized_for_the_calls [OF u, of example_env]
  from t obtain s where s: "server_updates ?h = [s]"
    using singleton_list by blast
  from t name obtain c where c: "upstream_updates ?h = [c]"
    using singleton_list [of "upstream_updates ?h"] by auto
  from t s have "c_str (ss_server_name s) = ''_''" by simp
  moreover from t c addr have "holds_name (tu_server_addr c) ''10.0.0.1:8080''"
    by simp
  then have "c_str (tu_server_addr c) = ''10.0.0.1:8080''"
    by (rule holds_name_c_str) (simp add: NUL_def)
  moreover from t c name have "holds_name (tu_upstream_name c) ''backend''"
    by simp
  then have "c_str (tu_upstream_name c) = ''backend''"
    by (rule holds_name_c_str) (simp add: NUL_def)
  moreover have "map (\<lambda>c. c_str (tu_server_addr c))
        (upstream_updates (ngx_http_vts_log_handler example_env
           (example_request\<lparr>r_upstream :=
              Some (example_upstream\<lparr>u_state := Some (example_state\<lparr>st_peer := None\<rparr>)\<rparr>)\<rparr>)))
       = [''unknown'']"
  proof -
    let ?u' = "example_upstream\<lparr>u_state := Some (example_state\<lparr>st_peer := None\<rparr>)\<rparr>"
    let ?r' = "example_request\<lparr>r_upstream := Some ?u'\<rparr>"
    let ?h' = "ngx_http_vts_log_handler example_env ?r'"
    have u': "r_upstream ?r' = Some ?u'" by simp
    have addr': "server_addr_of ?u' = []"
      and name': "upstream_name_of ?u' = ''backend''"
      by (simp_all add: server_addr_of_def upstream_name_of_def example_upstream_def
          ngx_null_string_def)
    note t' = names_normalized_for_the_calls [OF u', of example_env]
    from t' name' obtain c' where c': "upstream_updates ?h' = [c']"
      using singleton_list [of "upstream_updates ?h'"] by auto
    from t' c' addr' have "c_str (tu_server_addr c') = ''unknown''" by simp
    with c' show ?thesis by simp
  qed
  ultimately show ?thesis using u s c by simp
qed

text \<open>
  C10. The handler never writes outside its three arrays of 256 bytes, whatever the
  lengths of the names: it has no fault, and each array it passes on has its 256 bytes.
  A server name, upstream name or peer address of 255 bytes or more is replaced by
  \<^verbatim>\<open>_\<close>, \<^verbatim>\<open>default\<close> or \<^verbatim>\<open>unknown\<close>, not cut; a request whose upstream name is that long
  still gets its upstream-zone update, under the name \<^verbatim>\<open>default\<close>.
\<close>

theorem overlong_names_replaced:
  "return_code (ngx_http_vts_log_handler e r) = Some NGX_DECLINED
   \<and> (\<forall>u. r_upstream r = Some u \<longrightarrow>
        (255 \<le> len (r_headers_in_server r) \<longrightarrow>
           map (\<lambda>c. c_str (ss_server_name c)) (server_updates (ngx_http_vts_log_handler e r))
             = [''_''])
      \<and> (255 \<le> len (upstream_name_of u) \<longrightarrow>
           map (\<lambda>c. c_str (tu_upstream_name c)) (upstream_updates (ngx_http_vts_log_handler e r))
             = [''default''])
      \<and> (255 \<le> len (server_addr_of u) \<longrightarrow>
           (\<forall>c \<in> set (upstream_updates (ngx_http_vts_log_handler e r)).
              c_str (tu_server_addr c) = ''unknown''))
      \<and> (\<forall>c \<in> set (server_updates (ngx_http_vts_log_handler e r)).
            length (ss_server_name c) = 256)
      \<and> (\<forall>c \<in> set (upstream_updates (ngx_http_vts_log_handler e r)).
            length (tu_upstream_name c) = 256 \<and> length (tu_server_addr c) = 256))"
proof (cases "r_upstream r")
  case None
  then show ?thesis
    by (simp add: log_handler_no_upstream return_code_def)
next
  case (Some u)
  note h = log_handler_with_upstream [OF Some, of e]
  have size: "length (terminated_in (local_array stack 256) (chosen_name 256 s dflt)) = 256"
    if "length dflt < 255" for stack s dflt
    using that by (simp add: length_terminated_in length_local_array chosen_name_def)
  have long: "255 \<le> len (upstream_name_of u) \<Longrightarrow> 0 < len (upstream_name_of u)"
    by arith
  show ?thesis
    using Some long
    by (simp add: h return_code_def server_updates_def upstream_updates_def calls_of_def
        c_str_tokens chosen_name_cases size)
qed

text \<open>
  An instance at the bound and beyond it: a server name of 255 bytes, an upstream name of
  300 bytes and a peer address of 1000 bytes.
\<close>

theorem overlong_names_replaced_witness:
  "r_upstream
     (example_request
        \<lparr>r_upstream := Some
           \<lparr>u_conf = Some \<lparr>uc_upstream = Some \<lparr>us_host = replicate 300 CHR ''b''\<rparr>\<rparr>,
            u_state = Some (example_state\<lparr>st_peer := Some (replicate 1000 CHR ''p'')\<rparr>)\<rparr>,
         r_headers_in_server := replicate 255 CHR ''h''\<rparr>)
     = Some \<lparr>u_conf = Some \<lparr>uc_upstream = Some \<lparr>us_host = replicate 300 CHR ''b''\<rparr>\<rparr>,
             u_state = Some (example_state\<lparr>st_peer := Some (replicate 1000 CHR ''p'')\<rparr>)\<rparr>
   \<and> map (\<lambda>c. c_str (ss_server_name c))
        (server_updates (ngx_http_vts_log_handler example_env
          (example_request
            \<lparr>r_upstream := Some
               \<lparr>u_conf = Some \<lparr>uc_upstream = Some \<lparr>us_host = replicate 300 CHR ''b''\<rparr>\<rparr>,
                u_state = Some (example_state\<lparr>st_peer := Some (replicate 1000 CHR ''p'')\<rparr>)\<rparr>,
             r_headers_in_server := replicate 255 CHR ''h''\<rparr>))) = [''_'']
   \<and> map (\<lambda>c. c_str (tu_upstream_name c))
        (upstream_updates (ngx_http_vts_log_handler example_env
          (example_request
            \<lparr>r_upstream := Some
               \<lparr>u_conf = Some \<lparr>uc_upstream = Some \<lparr>us_host = replicate 300 CHR ''b''\<rparr>\<rparr>,
                u_state = Some (example_state\<lparr>st_peer := Some (replicate 1000 CHR ''p'')\<rparr>)\<rparr>,
             r_headers_in_server := replicate 255 CHR ''h''\<rparr>))) = [''default'']
   \<and> map (\<lambda>c. c_str (tu_server_addr c))
        (upstream_updates (ngx_http_vts_log_handler example_env
          (example_request
            \<lparr>r_upstream := Some
               \<lparr>u_conf = Some \<lparr>uc_upstream = Some \<lparr>us_host = replicate 300 CHR ''b''\<rparr>\<rparr>,
                u_state = Some (example_state\<lparr>st_peer := Some (replicate 1000 CHR ''p'')\<rparr>)\<rparr>,
             r_headers_in_server := replicate 255 CHR ''h''\<rparr>))) = [''unknown'']"
proof -
  let ?u = "\<lparr>u_conf = Some \<lparr>uc_upstream = Some \<lparr>us_host = replicate 300 CHR ''b''\<rparr>\<rparr>,
            u_state = Some (example_state\<lparr>st_peer := Some (replicate 1000 CHR ''p'')\<rparr>)\<rparr>"
  let ?r = "example_request\<lparr>r_upstream := Some ?u,
              r_headers_in_server := replicate 255 CHR ''h''\<rparr>"
  let ?h = "ngx_http_vts_log_handler example_env ?r"
  have u: "r_upstream ?r = Some ?u" by simp
  have l: "255 \<le> len (upstream_name_of ?u)" "255 \<le> len (server_addr_of ?u)"
    "255 \<le> len (r_headers_in_server ?r)"
    by (simp_all add: upstream_name_of_def server_addr_of_def)
  note t = overlong_names_replaced [of example_env ?r]
  from t u l have s: "map (\<lambda>c. c_str (ss_server_name c)) (server_updates ?h) = [''_'']"
    and n: "map (\<lambda>c. c_str (tu_upstream_name c)) (upstream_updates ?h) = [''default'']"
    and a: "\<forall>c \<in> set (upstream_updates ?h). c_str (tu_server_addr c) = ''unknown''"
    by blast+
  from n obtain c where c: "upstream_updates ?h = [c]"
    by (cases "upstream_updates ?h") auto
  with a have "map (\<lambda>c. c_str (tu_server_addr c)) (upstream_updates ?h) = [''unknown'']"
    by simp
  with u s n show ?thesis by simp
qed

subsection \<open>Claims about the status handler and the configuration\<close>

text \<open>
  C7. After the merge, \<^verbatim>\<open>zone_size\<close> is the child's value when the child set it,
  otherwise the parent's when the parent set it, otherwise 1048576 bytes (1 MiB); "set"
  is "not \<^verbatim>\<open>NGX_CONF_UNSET_SIZE\<close>". The merge reports no error and leaves the zone name
  alone. Two configurations as \<^verbatim>\<open>ngx_http_vts_create_loc_conf\<close> makes them merge to 1 MiB.
\<close>

theorem merge_zone_size:
  "lc_zone_size (snd (ngx_http_vts_merge_loc_conf prev conf)) =
     (if lc_zone_size conf \<noteq> NGX_CONF_UNSET_SIZE then lc_zone_size conf
      else if lc_zone_size prev \<noteq> NGX_CONF_UNSET_SIZE then lc_zone_size prev
      else 1048576)
   \<and> unat (1048576 :: size_t) = 1024 * 1024
   \<and> fst (ngx_http_vts_merge_loc_conf prev conf) = None
   \<and> lc_zone_name (snd (ngx_http_vts_merge_loc_conf prev conf)) = lc_zone_name conf
   \<and> map_option (\<lambda>c. lc_zone_size (snd (ngx_http_vts_merge_loc_conf c c)))
        (ngx_http_vts_create_loc_conf True) = Some 1048576"
  by (simp add: ngx_http_vts_merge_loc_conf_def ngx_conf_merge_size_value_def
      ngx_http_vts_create_loc_conf_def)

text \<open>
  The test \<^verbatim>\<open>r->method & (NGX_HTTP_GET|NGX_HTTP_HEAD)\<close> on the methods nginx knows: it is 0
  for each of them but GET and HEAD.
\<close>

lemma method_mask:
  assumes "m \<in> set ngx_http_methods" "m \<noteq> NGX_HTTP_GET" "m \<noteq> NGX_HTTP_HEAD"
  shows "m AND (NGX_HTTP_GET OR NGX_HTTP_HEAD) = 0"
  using assms
  by (auto simp add: ngx_http_methods_def NGX_HTTP_UNKNOWN_def NGX_HTTP_GET_def
      NGX_HTTP_HEAD_def NGX_HTTP_POST_def NGX_HTTP_PUT_def NGX_HTTP_DELETE_def
      NGX_HTTP_MKCOL_def NGX_HTTP_COPY_def NGX_HTTP_MOVE_def NGX_HTTP_OPTIONS_def
      NGX_HTTP_PROPFIND_def NGX_HTTP_PROPPATCH_def NGX_HTTP_LOCK_def NGX_HTTP_UNLOCK_def
      NGX_HTTP_PATCH_def NGX_HTTP_TRACE_def NGX_HTTP_CONNECT_def)

text \<open>
  C9. A request to the status endpoint whose method is one of nginx's methods other than
  GET and HEAD is answered with \<^verbatim>\<open>NGX_HTTP_NOT_ALLOWED\<close> (405). The handler has then
  called nothing: not \<^verbatim>\<open>ngx_http_vts_get_status\<close>, which reads the store and renders the
  report, and no function of nginx; the request is as it was.
\<close>

theorem status_handler_refuses_other_methods:
  assumes "r_method r \<in> set ngx_http_methods"
    and "r_method r \<noteq> NGX_HTTP_GET" and "r_method r \<noteq> NGX_HTTP_HEAD"
  shows "ngx_http_vts_status_handler e r = (NGX_HTTP_NOT_ALLOWED, [], r)
         \<and> NGX_HTTP_NOT_ALLOWED = 405"
  using method_mask [OF assms]
  by (simp add: ngx_http_vts_status_handler_def NGX_HTTP_NOT_ALLOWED_def)

text \<open>An instance: the example request sent as a POST.\<close>

theorem status_handler_refuses_other_methods_witness:
  "r_method (example_request\<lparr>r_method := NGX_HTTP_POST\<rparr>) \<in> set ngx_http_methods
   \<and> r_method (example_request\<lparr>r_method := NGX_HTTP_POST\<rparr>) \<noteq> NGX_HTTP_GET
   \<and> r_method (example_request\<lparr>r_method := NGX_HTTP_POST\<rparr>) \<noteq> NGX_HTTP_HEAD
   \<and> ngx_http_vts_status_handler example_status_env (example_request\<lparr>r_method := NGX_HTTP_POST\<rparr>)
       = (405, [], example_request\<lparr>r_method := NGX_HTTP_POST\<rparr>)"
proof -
  let ?r = "example_request\<lparr>r_method := NGX_HTTP_POST\<rparr>"
  have m: "r_method ?r \<in> set ngx_http_methods"
    by (simp add: ngx_http_methods_def)
  have g: "r_method ?r \<noteq> NGX_HTTP_GET" and h: "r_method ?r \<noteq> NGX_HTTP_HEAD"
    by (simp_all add: NGX_HTTP_POST_def NGX_HTTP_GET_def NGX_HTTP_HEAD_def)
  from status_handler_refuses_other_methods [OF m g h, of example_status_env] m g h
  show ?thesis by simp
qed

text \<open>
  For comparison, the same request sent as a GET: the handler reads the report and sends
  it.
\<close>

lemma status_handler_get_reads_store:
  "ngx_http_vts_status_handler example_status_env example_request =
     (NGX_OK,
      [Discard_request_body, Get_status, Create_temp_buf 16, Send_header,
       Output_filter ''# nginx-vts-rust''],
      example_request\<lparr>r_headers_out_status := 200, r_content_length_n := 16\<rparr>)"
  by (simp add: ngx_http_vts_status_handler_def example_status_env_def example_request_def
      NGX_HTTP_GET_def NGX_HTTP_HEAD_def NGX_OK_def NGX_HTTP_OK_def header_stops_def
      NGX_ERROR_def Let_def)

end
